theory Spec2Isabelle
  imports Complex_Main "HOL-Library.Sublist"
begin

section \<open>Text\<close>

text \<open>
  A Python \<^verbatim>\<open>str\<close> is represented by an Isabelle string holding the bytes of its UTF-8
  encoding. \<^verbatim>\<open>str.isspace\<close>, \<^verbatim>\<open>str.strip\<close> and \<^verbatim>\<open>str.lower\<close> are modelled
  on the ASCII range, where they are what CPython computes: the white space characters
  are the codes 9 to 13 and 28 to 32, and the letters \<open>A\<close> to \<open>Z\<close> are moved by 32.
  Bytes from 128 on (the encodings of non-ASCII characters) are neither white space nor
  letters here; Python's treatment of non-ASCII white space and non-ASCII letters is
  outside this model.
\<close>

definition isspace :: "char \<Rightarrow> bool" where
  "isspace c = (let n = (of_char c :: nat) in (9 \<le> n \<and> n \<le> 13) \<or> (28 \<le> n \<and> n \<le> 32))"

text \<open>\<^verbatim>\<open>s.strip()\<close>: drop the leading and the trailing white space.\<close>

definition strip :: "string \<Rightarrow> string" where
  "strip s = rev (dropWhile isspace (rev (dropWhile isspace s)))"

definition lower_char :: "char \<Rightarrow> char" where
  "lower_char c =
     (let n = (of_char c :: nat) in if 65 \<le> n \<and> n \<le> 90 then char_of (n + 32) else c)"

text \<open>\<^verbatim>\<open>s.lower()\<close>.\<close>

definition lower :: "string \<Rightarrow> string" where
  "lower s = map lower_char s"

text \<open>\<^verbatim>\<open>sub in s\<close> on strings: \<open>sub\<close> occurs in \<open>s\<close> as a contiguous block.\<close>

fun py_in :: "string \<Rightarrow> string \<Rightarrow> bool" where
  "py_in sub [] = (sub = [])"
| "py_in sub (c # cs) = (prefix sub (c # cs) \<or> py_in sub cs)"




section \<open>Request payloads\<close>

text \<open>
  What \<^verbatim>\<open>request.get_json(force=True)\<close> hands to a view: \<^verbatim>\<open>None\<close>, a bool, a number,
  a str, a list or a dict. A dict is an association list read with \<^const>\<open>map_of\<close>. A
  number is kept as a rational; all the views ask of it is whether it is zero.
\<close>

datatype json =
    JNull
  | JBool bool
  | JNum rat
  | JStr string
  | JArr "json list"
  | JObj "(string \<times> json) list"

datatype error = BadRequest | AttributeError | OperationalError

text \<open>
  The body of a request is \<open>None\<close> when it is not JSON text: \<^verbatim>\<open>get_json\<close> then raises
  \<^verbatim>\<open>BadRequest\<close>, which the views catch with every other exception.
\<close>

definition get_json :: "json option \<Rightarrow> error + json" where
  "get_json body = (case body of None \<Rightarrow> Inl BadRequest | Some data \<Rightarrow> Inr data)"

text \<open>Python's truth value of a parsed JSON value, as \<^verbatim>\<open>or\<close> tests it.\<close>

fun truthy :: "json \<Rightarrow> bool" where
  "truthy JNull = False"
| "truthy (JBool b) = b"
| "truthy (JNum r) = (r \<noteq> 0)"
| "truthy (JStr s) = (s \<noteq> [])"
| "truthy (JArr xs) = (xs \<noteq> [])"
| "truthy (JObj kvs) = (kvs \<noteq> [])"

text \<open>\<^verbatim>\<open>data.get(key)\<close>: only a dict has \<^verbatim>\<open>get\<close>; a missing key gives \<^verbatim>\<open>None\<close>.\<close>

definition dict_get :: "json \<Rightarrow> string \<Rightarrow> error + json" where
  "dict_get data key =
     (case data of
        JObj kvs \<Rightarrow> (case map_of kvs key of None \<Rightarrow> Inr JNull | Some v \<Rightarrow> Inr v)
      | _ \<Rightarrow> Inl AttributeError)"

text \<open>\<^verbatim>\<open>v or ''\<close>.\<close>

definition or_empty :: "json \<Rightarrow> json" where
  "or_empty v = (if truthy v then v else JStr [])"

text \<open>\<^verbatim>\<open>v.strip()\<close>: only a str has \<^verbatim>\<open>strip\<close>.\<close>

definition str_strip :: "json \<Rightarrow> error + string" where
  "str_strip v = (case v of JStr s \<Rightarrow> Inr (strip s) | _ \<Rightarrow> Inl AttributeError)"

text \<open>The expression \<^verbatim>\<open>(data.get(key) or '').strip()\<close> of both views.\<close>

definition field_text :: "json \<Rightarrow> string \<Rightarrow> error + string" where
  "field_text data key =
     (case dict_get data key of Inl e \<Rightarrow> Inl e | Inr v \<Rightarrow> str_strip (or_empty v))"

section \<open>The database\<close>

text \<open>
  The SQLite file holds at most the two tables that \<^verbatim>\<open>init_db\<close> creates. A table is its
  rows in insertion order together with the largest row id handed out so far, from which
  \<^verbatim>\<open>AUTOINCREMENT\<close> takes the next one. Row ids are unbounded here. Faults of the storage
  engine other than a missing table (a full disk, a locked file) are outside the model.
\<close>

record contact_row =
  contact_id :: nat
  contact_name :: string
  contact_email :: string
  contact_message :: string
  contact_created_at :: string

record chat_row =
  chat_id :: nat
  chat_sender :: string
  chat_message :: string
  chat_created_at :: string

record 'r table =
  rows :: "'r list"
  last_rowid :: nat

record db =
  contacts :: "contact_row table option"
  chats :: "chat_row table option"

definition empty_table :: "'r table" where
  "empty_table = \<lparr>rows = [], last_rowid = 0\<rparr>"

definition insert_row :: "(nat \<Rightarrow> 'r) \<Rightarrow> 'r table \<Rightarrow> 'r table" where
  "insert_row mk t =
     \<lparr>rows = rows t @ [mk (Suc (last_rowid t))], last_rowid = Suc (last_rowid t)\<rparr>"

text \<open>
  A connection sees its own uncommitted writes (\<open>pending\<close>); the file changes at
  \<^verbatim>\<open>commit\<close> (\<open>stored\<close>). Closing a connection drops what was not committed.
\<close>

record conn =
  stored :: db
  pending :: db

definition get_db :: "db \<Rightarrow> conn" where
  "get_db d = \<lparr>stored = d, pending = d\<rparr>"

definition commit :: "conn \<Rightarrow> conn" where
  "commit c = c\<lparr>stored := pending c\<rparr>"

definition close_connection :: "conn \<Rightarrow> db" where
  "close_connection c = stored c"

text \<open>\<^verbatim>\<open>CREATE TABLE IF NOT EXISTS contacts (...)\<close> and the same for \<^verbatim>\<open>chats\<close>.\<close>

definition create_contacts :: "conn \<Rightarrow> error + conn" where
  "create_contacts c =
     (case contacts (pending c) of
        None \<Rightarrow> Inr (c\<lparr>pending := (pending c)\<lparr>contacts := Some empty_table\<rparr>\<rparr>)
      | Some t \<Rightarrow> Inr c)"

definition create_chats :: "conn \<Rightarrow> error + conn" where
  "create_chats c =
     (case chats (pending c) of
        None \<Rightarrow> Inr (c\<lparr>pending := (pending c)\<lparr>chats := Some empty_table\<rparr>\<rparr>)
      | Some t \<Rightarrow> Inr c)"

text \<open>
  \<^verbatim>\<open>INSERT INTO contacts (name, email, message, created_at) VALUES (?, ?, ?, ?)\<close>;
  SQLite raises \<^verbatim>\<open>OperationalError\<close> when the table does not exist.
\<close>

definition insert_contact :: "string \<Rightarrow> string \<Rightarrow> string \<Rightarrow> string \<Rightarrow> conn \<Rightarrow> error + conn" where
  "insert_contact name email message created_at c =
     (case contacts (pending c) of
        None \<Rightarrow> Inl OperationalError
      | Some t \<Rightarrow>
          Inr (c\<lparr>pending := (pending c)\<lparr>contacts := Some (insert_row
            (\<lambda>i. \<lparr>contact_id = i, contact_name = name, contact_email = email,
                  contact_message = message, contact_created_at = created_at\<rparr>) t)\<rparr>\<rparr>))"

text \<open>\<^verbatim>\<open>INSERT INTO chats (sender, message, created_at) VALUES (?, ?, ?)\<close>.\<close>

definition insert_chat :: "string \<Rightarrow> string \<Rightarrow> string \<Rightarrow> conn \<Rightarrow> error + conn" where
  "insert_chat sender message created_at c =
     (case chats (pending c) of
        None \<Rightarrow> Inl OperationalError
      | Some t \<Rightarrow>
          Inr (c\<lparr>pending := (pending c)\<lparr>chats := Some (insert_row
            (\<lambda>i. \<lparr>chat_id = i, chat_sender = sender, chat_message = message,
                  chat_created_at = created_at\<rparr>) t)\<rparr>\<rparr>))"

text \<open>
  \<^verbatim>\<open>init_db\<close>, run inside \<^verbatim>\<open>with app.app_context()\<close>: the result is the file after the
  context's teardown has closed the connection. Nothing catches an exception here.
\<close>

definition init_db :: "db \<Rightarrow> error + db" where
  "init_db d =
     (let c = get_db d in
      case create_contacts c of
        Inl e \<Rightarrow> Inl e
      | Inr c1 \<Rightarrow>
          (case create_chats c1 of
             Inl e \<Rightarrow> Inl e
           | Inr c2 \<Rightarrow> Inr (close_connection (commit c2))))"

text \<open>Running \<^verbatim>\<open>init_db\<close> \<open>n\<close> times in a row, stopping at the first exception.\<close>

fun init_db_times :: "nat \<Rightarrow> db \<Rightarrow> error + db" where
  "init_db_times 0 d = Inr d"
| "init_db_times (Suc n) d =
     (case init_db d of Inl e \<Rightarrow> Inl e | Inr d' \<Rightarrow> init_db_times n d')"

section \<open>Responses\<close>

datatype content = Json json | Template string | Location string

record response =
  status :: nat
  content :: content

text \<open>\<^verbatim>\<open>jsonify(obj), code\<close>; a view that returns \<^verbatim>\<open>jsonify(obj)\<close> alone answers 200.\<close>

definition jsonify :: "json \<Rightarrow> nat \<Rightarrow> response" where
  "jsonify obj code = \<lparr>status = code, content = Json obj\<rparr>"

definition render_template :: "string \<Rightarrow> response" where
  "render_template name = \<lparr>status = 200, content = Template name\<rparr>"

definition redirect :: "string \<Rightarrow> response" where
  "redirect location = \<lparr>status = 302, content = Location location\<rparr>"

definition server_error :: response where
  "server_error = jsonify (JObj [(''ok'', JBool False), (''error'', JStr ''Server error'')]) 500"

section \<open>The contact form\<close>

text \<open>
  A view is modelled with its request context: it takes the request body, the readings
  of the clock it makes (\<^verbatim>\<open>datetime.utcnow().isoformat()\<close>) and the file, and returns
  the response and the file after \<^verbatim>\<open>close_connection\<close>. The \<^verbatim>\<open>print\<close> of the
  exception handler is not modelled.
\<close>

definition submit_contact :: "json option \<Rightarrow> string \<Rightarrow> db \<Rightarrow> response \<times> db" where
  "submit_contact body now d =
     (case get_json body of
        Inl e \<Rightarrow> (server_error, d)
      | Inr data \<Rightarrow>
     (case field_text data ''name'' of
        Inl e \<Rightarrow> (server_error, d)
      | Inr name \<Rightarrow>
     (case field_text data ''email'' of
        Inl e \<Rightarrow> (server_error, d)
      | Inr email \<Rightarrow>
     (case field_text data ''message'' of
        Inl e \<Rightarrow> (server_error, d)
      | Inr message \<Rightarrow>
          if name = [] \<or> email = [] then
            (jsonify (JObj [(''ok'', JBool False),
               (''error'', JStr ''Name and email are required.'')]) 400, d)
          else
            (let c = get_db d in
             case insert_contact name email message now c of
               Inl e \<Rightarrow> (server_error, close_connection c)
             | Inr c1 \<Rightarrow>
                 (let c2 = commit c1 in
                  (jsonify (JObj [(''ok'', JBool True),
                     (''message'', JStr ''Thanks! Your message was received.'')]) 200,
                   close_connection c2)))))))"

section \<open>The chat widget\<close>

definition greeting_reply :: string where
  "greeting_reply =
     ''Hello! How can I help you today? You can ask about projects, services, or hiring.''"

text \<open>
  Three of the replies hold the characters U+00E2, U+20AC and U+201D in the source file;
  \<open>dash\<close> is their UTF-8 encoding.
\<close>

definition dash :: string where
  "dash = [CHR 0xC3, CHR 0xA2, CHR 0xE2, CHR 0x82, CHR 0xAC, CHR 0xE2, CHR 0x80, CHR 0x9D]"

definition projects_reply :: string where
  "projects_reply =
     ''I build full-stack and AI applications '' @ dash
       @ '' check the Projects section for examples.''"

definition hiring_reply :: string where
  "hiring_reply =
     ''Thanks for your interest! Please share a brief message about your requirements ''
       @ dash @ [CHR '' '', CHR ''I'', CHR 0x27] @ ''ll get back to you.''"

definition help_reply :: string where
  "help_reply =
     ''Tell me more about the problem and I'' @ [CHR 0x27]
       @ ''ll suggest a solution or next steps.''"

definition fallback_reply :: string where
  "fallback_reply =
     ''Thanks for the message '' @ dash @ [CHR '' '', CHR ''I'', CHR 0x27]
       @ ''ll review it and respond soon. Can you share more details?''"

text \<open>The rule chain of \<^verbatim>\<open>chat_send\<close>, from the trimmed message to the reply.\<close>

definition select_reply :: "string \<Rightarrow> string" where
  "select_reply message =
     (let msg_lower = lower message in
      if list_ex (\<lambda>greet. py_in greet msg_lower) [''hi'', ''hello'', ''hey'']
        then greeting_reply
      else if py_in ''project'' msg_lower \<or> py_in ''work'' msg_lower
        then projects_reply
      else if py_in ''hire'' msg_lower \<or> py_in ''hire me'' msg_lower
              \<or> py_in ''pricing'' msg_lower
        then hiring_reply
      else if py_in ''help'' msg_lower \<or> py_in ''support'' msg_lower
        then help_reply
      else fallback_reply)"

definition chat_send :: "json option \<Rightarrow> string \<Rightarrow> string \<Rightarrow> db \<Rightarrow> response \<times> db" where
  "chat_send body now1 now2 d =
     (case get_json body of
        Inl e \<Rightarrow> (server_error, d)
      | Inr data \<Rightarrow>
     (case field_text data ''message'' of
        Inl e \<Rightarrow> (server_error, d)
      | Inr message \<Rightarrow>
          if message = [] then
            (jsonify (JObj [(''ok'', JBool False), (''error'', JStr ''Empty message'')]) 400, d)
          else
            (let c = get_db d in
             case insert_chat ''user'' message now1 c of
               Inl e \<Rightarrow> (server_error, close_connection c)
             | Inr c1 \<Rightarrow>
                 (let c2 = commit c1;
                      reply = select_reply message
                  in case insert_chat ''bot'' reply now2 c2 of
                       Inl e \<Rightarrow> (server_error, close_connection c2)
                     | Inr c3 \<Rightarrow>
                         (let c4 = commit c3 in
                          (jsonify (JObj [(''ok'', JBool True), (''reply'', JStr reply)]) 200,
                           close_connection c4))))))"





section \<open>Pages\<close>

text \<open>
  \<^verbatim>\<open>url_for('home')\<close> is the rule of the view \<^verbatim>\<open>home\<close>, \<^verbatim>\<open>'/'\<close>. \<open>handle_get\<close> is the
  URL map for GET requests: \<open>None\<close> where no view of the application runs (the two
  POST-only rules and every other path).
\<close>

definition url_for_home :: string where
  "url_for_home = ''/''"

definition home :: response where
  "home = render_template ''index.html''"

definition projects :: response where
  "projects = redirect (url_for_home @ ''#projects'')"

definition expertise :: response where
  "expertise = redirect (url_for_home @ ''#expertise'')"

definition about :: response where
  "about = redirect (url_for_home @ ''#about'')"

definition contact :: response where
  "contact = redirect (url_for_home @ ''#contact'')"

definition home_alias :: response where
  "home_alias = redirect url_for_home"

definition handle_get :: "string \<Rightarrow> response option" where
  "handle_get path =
     (if path = ''/'' then Some home
      else if path = ''/projects'' then Some projects
      else if path = ''/expertise'' then Some expertise
      else if path = ''/about'' then Some about
      else if path = ''/contact'' then Some contact
      else if path = ''/home'' then Some home_alias
      else None)"

section \<open>Properties of the text operations\<close>









section \<open>The reply rules\<close>



text \<open>
  Claim C6. For the message "hey, any projects?" the rule chain selects the greeting
  reply and not the projects reply, although the second rule matches as well: the first
  rule that matches wins.
\<close>

theorem hey_any_projects_greeting:
  "select_reply ''hey, any projects?'' = greeting_reply
   \<and> select_reply ''hey, any projects?'' \<noteq> projects_reply
   \<and> py_in ''project'' (lower ''hey, any projects?'')"
  by code_simp

section \<open>Reading a field of the payload\<close>

lemma strip_Nil: "strip [] = []"
  by (simp add: strip_def)


lemma field_text_str:
  "map_of kvs k = Some (JStr s) \<Longrightarrow> field_text (JObj kvs) k = Inr (strip s)"
  by (simp add: field_text_def dict_get_def or_empty_def str_strip_def strip_Nil)

lemma field_text_absent:
  "map_of kvs k = None \<Longrightarrow> field_text (JObj kvs) k = Inr []"
  by (simp add: field_text_def dict_get_def or_empty_def str_strip_def strip_Nil)

lemma field_text_null:
  "map_of kvs k = Some JNull \<Longrightarrow> field_text (JObj kvs) k = Inr []"
  by (simp add: field_text_def dict_get_def or_empty_def str_strip_def strip_Nil)


section \<open>The chat view\<close>






section \<open>The contact view\<close>





text \<open>
  Claim C10. A payload in which a field is absent or null is treated exactly like one in
  which that field is the empty string. So a contact payload without a name or without
  an email gets the 400 validation response and not the 500 one, its fields being text,
  null or absent, and a chat payload without a message gets the 400 response
  "Empty message"; no row is inserted in either case.
\<close>

lemma field_text_default:
  assumes "map_of kvs k = None \<or> map_of kvs k = Some JNull"
  shows "field_text (JObj ((k, JStr []) # kvs)) key = field_text (JObj kvs) key"
  using assms
  by (auto simp: field_text_def dict_get_def or_empty_def str_strip_def strip_Nil)

theorem absent_field_as_empty:
  assumes "map_of kvs k = None \<or> map_of kvs k = Some JNull"
  shows "submit_contact (Some (JObj kvs)) now d
           = submit_contact (Some (JObj ((k, JStr []) # kvs))) now d
    \<and> chat_send (Some (JObj kvs)) now1 now2 d
           = chat_send (Some (JObj ((k, JStr []) # kvs))) now1 now2 d
    \<and> ((k = ''name'' \<or> k = ''email'')
         \<and> (\<forall>key \<in> {''name'', ''email'', ''message''}.
               map_of kvs key = None \<or> map_of kvs key = Some JNull
               \<or> (\<exists>s. map_of kvs key = Some (JStr s)))
        \<longrightarrow> submit_contact (Some (JObj kvs)) now d =
             (jsonify (JObj [(''ok'', JBool False),
                (''error'', JStr ''Name and email are required.'')]) 400, d))
    \<and> (k = ''message''
        \<longrightarrow> chat_send (Some (JObj kvs)) now1 now2 d =
             (jsonify (JObj [(''ok'', JBool False), (''error'', JStr ''Empty message'')]) 400, d))"
proof -
  note eq = field_text_default [OF assms]
  have k: "field_text (JObj kvs) k = Inr []"
    using assms by (auto simp: field_text_absent field_text_null)
  have 1: "submit_contact (Some (JObj kvs)) now d
           = submit_contact (Some (JObj ((k, JStr []) # kvs))) now d"
    by (simp add: submit_contact_def get_json_def eq cong: sum.case_cong)
  have 2: "chat_send (Some (JObj kvs)) now1 now2 d
           = chat_send (Some (JObj ((k, JStr []) # kvs))) now1 now2 d"
    by (simp add: chat_send_def get_json_def eq cong: sum.case_cong)
  have 3: "submit_contact (Some (JObj kvs)) now d =
             (jsonify (JObj [(''ok'', JBool False),
                (''error'', JStr ''Name and email are required.'')]) 400, d)"
    if kk: "k = ''name'' \<or> k = ''email''"
      and ty: "\<forall>key \<in> {''name'', ''email'', ''message''}.
               map_of kvs key = None \<or> map_of kvs key = Some JNull
               \<or> (\<exists>s. map_of kvs key = Some (JStr s))"
  proof -
    have ex: "\<exists>t. field_text (JObj kvs) key = Inr t"
      if "key \<in> {''name'', ''email'', ''message''}" for key
      using ty that
      by (metis field_text_absent field_text_null field_text_str)
    obtain n where n: "field_text (JObj kvs) ''name'' = Inr n"
      using ex [of "''name''"] by auto
    obtain e where e: "field_text (JObj kvs) ''email'' = Inr e"
      using ex [of "''email''"] by auto
    obtain m where m: "field_text (JObj kvs) ''message'' = Inr m"
      using ex [of "''message''"] by auto
    from kk k n e have "n = [] \<or> e = []" by auto
    then show ?thesis
      by (auto simp: submit_contact_def get_json_def n e m)
  qed
  have 4: "chat_send (Some (JObj kvs)) now1 now2 d =
             (jsonify (JObj [(''ok'', JBool False), (''error'', JStr ''Empty message'')]) 400, d)"
    if "k = ''message''"
    using k that by (simp add: chat_send_def get_json_def)
  from 1 2 3 4 show ?thesis by blast
qed

theorem absent_field_as_empty_witness:
  "map_of [(''email'', JStr ''ada@example.org'')] ''name'' = None
   \<and> submit_contact (Some (JObj [(''email'', JStr ''ada@example.org'')])) ''t1''
        \<lparr>contacts = Some empty_table, chats = Some empty_table\<rparr>
      = submit_contact (Some (JObj [(''name'', JStr []), (''email'', JStr ''ada@example.org'')]))
          ''t1'' \<lparr>contacts = Some empty_table, chats = Some empty_table\<rparr>
   \<and> submit_contact (Some (JObj [(''email'', JStr ''ada@example.org'')])) ''t1''
        \<lparr>contacts = Some empty_table, chats = Some empty_table\<rparr>
      = (jsonify (JObj [(''ok'', JBool False),
           (''error'', JStr ''Name and email are required.'')]) 400,
         \<lparr>contacts = Some empty_table, chats = Some empty_table\<rparr>)
   \<and> map_of [(''message'', JNull)] ''message'' = Some JNull
   \<and> chat_send (Some (JObj [(''message'', JNull)])) ''t1'' ''t2''
        \<lparr>contacts = Some empty_table, chats = Some empty_table\<rparr>
      = (jsonify (JObj [(''ok'', JBool False), (''error'', JStr ''Empty message'')]) 400,
         \<lparr>contacts = Some empty_table, chats = Some empty_table\<rparr>)"
proof -
  let ?d = "\<lparr>contacts = Some empty_table, chats = Some empty_table\<rparr>"
  have a: "map_of [(''email'', JStr ''ada@example.org'')] ''name'' = None
           \<or> map_of [(''email'', JStr ''ada@example.org'')] ''name'' = Some JNull"
    by simp
  have b: "map_of [(''message'', JNull)] ''message'' = None
           \<or> map_of [(''message'', JNull)] ''message'' = Some JNull"
    by simp
  have ty: "\<forall>key \<in> {''name'', ''email'', ''message''}.
       map_of [(''email'', JStr ''ada@example.org'')] key = None
       \<or> map_of [(''email'', JStr ''ada@example.org'')] key = Some JNull
       \<or> (\<exists>s. map_of [(''email'', JStr ''ada@example.org'')] key = Some (JStr s))"
    by simp
  note A = absent_field_as_empty [OF a, of "''t1''" ?d "''t1''" "''t2''"]
  note B = absent_field_as_empty [OF b, of "''t1''" ?d "''t1''" "''t2''"]
  from A have 1: "submit_contact (Some (JObj [(''email'', JStr ''ada@example.org'')])) ''t1'' ?d
      = submit_contact (Some (JObj [(''name'', JStr []), (''email'', JStr ''ada@example.org'')]))
          ''t1'' ?d"
    by blast
  from A ty have 2: "submit_contact (Some (JObj [(''email'', JStr ''ada@example.org'')])) ''t1'' ?d
      = (jsonify (JObj [(''ok'', JBool False),
           (''error'', JStr ''Name and email are required.'')]) 400, ?d)"
    by blast
  from B have 3: "chat_send (Some (JObj [(''message'', JNull)])) ''t1'' ''t2'' ?d
      = (jsonify (JObj [(''ok'', JBool False), (''error'', JStr ''Empty message'')]) 400, ?d)"
    by blast
  have 4: "map_of [(''email'', JStr ''ada@example.org'')] ''name'' = None"
    by simp
  have 5: "map_of [(''message'', JNull)] ''message'' = Some JNull"
    by simp
  from 1 2 3 4 5 show ?thesis
    by (intro conjI)
qed

section \<open>Creating the tables\<close>

lemma init_db_result:
  "init_db d = Inr (d\<lparr>contacts := Some (case contacts d of None \<Rightarrow> empty_table | Some t \<Rightarrow> t),
                      chats := Some (case chats d of None \<Rightarrow> empty_table | Some t \<Rightarrow> t)\<rparr>)"
  by (simp add: init_db_def get_db_def create_contacts_def create_chats_def commit_def
        close_connection_def Let_def split: option.splits)

lemma init_db_fixed:
  "contacts d \<noteq> None \<Longrightarrow> chats d \<noteq> None \<Longrightarrow> init_db d = Inr d"
  by (auto simp: init_db_result)

lemma init_db_times_fixed:
  "init_db d = Inr d \<Longrightarrow> init_db_times n d = Inr d"
  by (induction n) simp_all

text \<open>
  Claim C7. \<^verbatim>\<open>init_db\<close> is idempotent. From any state of the file, whether the tables
  exist or not, it raises nothing; afterwards both tables exist, a table that existed
  before is as it was, with every row, and a table that did not is empty; running it
  again changes nothing, so any positive number of runs gives what one run gives.
\<close>

theorem init_db_idempotent:
  "\<exists>d'. init_db d = Inr d'
     \<and> contacts d' = Some (case contacts d of None \<Rightarrow> empty_table | Some t \<Rightarrow> t)
     \<and> chats d' = Some (case chats d of None \<Rightarrow> empty_table | Some t \<Rightarrow> t)
     \<and> init_db d' = Inr d'
     \<and> (\<forall>n. 0 < n \<longrightarrow> init_db_times n d = Inr d')"
proof -
  let ?d' = "d\<lparr>contacts := Some (case contacts d of None \<Rightarrow> empty_table | Some t \<Rightarrow> t),
               chats := Some (case chats d of None \<Rightarrow> empty_table | Some t \<Rightarrow> t)\<rparr>"
  have 1: "init_db d = Inr ?d'"
    by (rule init_db_result)
  have 2: "init_db ?d' = Inr ?d'"
    by (rule init_db_fixed) simp_all
  have 3: "init_db_times n d = Inr ?d'" if "0 < n" for n
  proof -
    from that obtain k where "n = Suc k"
      by (cases n) simp_all
    then show ?thesis
      using 1 init_db_times_fixed [OF 2, of k] by simp
  qed
  from 1 2 3 show ?thesis
    by (intro exI [of _ ?d']) simp
qed

theorem init_db_idempotent_witness:
  "init_db \<lparr>contacts = None,
            chats = Some \<lparr>rows = [\<lparr>chat_id = 1, chat_sender = ''user'',
              chat_message = ''hi'', chat_created_at = ''t''\<rparr>], last_rowid = 1\<rparr>\<rparr>
     = Inr \<lparr>contacts = Some empty_table,
            chats = Some \<lparr>rows = [\<lparr>chat_id = 1, chat_sender = ''user'',
              chat_message = ''hi'', chat_created_at = ''t''\<rparr>], last_rowid = 1\<rparr>\<rparr>
   \<and> init_db_times 3 \<lparr>contacts = None,
            chats = Some \<lparr>rows = [\<lparr>chat_id = 1, chat_sender = ''user'',
              chat_message = ''hi'', chat_created_at = ''t''\<rparr>], last_rowid = 1\<rparr>\<rparr>
     = Inr \<lparr>contacts = Some empty_table,
            chats = Some \<lparr>rows = [\<lparr>chat_id = 1, chat_sender = ''user'',
              chat_message = ''hi'', chat_created_at = ''t''\<rparr>], last_rowid = 1\<rparr>\<rparr>"
proof -
  let ?t = "\<lparr>rows = [\<lparr>chat_id = 1, chat_sender = ''user'',
              chat_message = ''hi'', chat_created_at = ''t''\<rparr>], last_rowid = 1\<rparr>"
  let ?d = "\<lparr>contacts = None, chats = Some ?t\<rparr>"
  from init_db_idempotent [of ?d]
  obtain d' where i: "init_db ?d = Inr d'"
    and c: "contacts d' = Some empty_table" and h: "chats d' = Some ?t"
    and n: "\<forall>n. 0 < n \<longrightarrow> init_db_times n ?d = Inr d'"
    by auto
  from c h have "d' = \<lparr>contacts = Some empty_table, chats = Some ?t\<rparr>"
    by (cases d') simp
  with i n show ?thesis by simp
qed

section \<open>Rows are only ever added\<close>

text \<open>
  Claim C8. No view updates or deletes a row: after any call of \<^verbatim>\<open>submit_contact\<close> or
  \<^verbatim>\<open>chat_send\<close>, whatever the request body, the rows that were in a table are still
  there, unmodified and in place, followed by the new ones if any. Moreover
  \<^verbatim>\<open>submit_contact\<close> leaves the table \<open>chats\<close> as it was, and \<^verbatim>\<open>chat_send\<close> leaves the
  table \<open>contacts\<close> as it was.
\<close>

theorem views_only_append:
  "(case submit_contact body now d of (r, d') \<Rightarrow>
      chats d' = chats d
      \<and> (contacts d = None \<longrightarrow> contacts d' = None)
      \<and> (\<forall>t. contacts d = Some t \<longrightarrow> (\<exists>t'. contacts d' = Some t' \<and> prefix (rows t) (rows t'))))
   \<and> (case chat_send body now1 now2 d of (r, d') \<Rightarrow>
      contacts d' = contacts d
      \<and> (chats d = None \<longrightarrow> chats d' = None)
      \<and> (\<forall>t. chats d = Some t \<longrightarrow> (\<exists>t'. chats d' = Some t' \<and> prefix (rows t) (rows t'))))"
proof
  show "case submit_contact body now d of (r, d') \<Rightarrow>
      chats d' = chats d
      \<and> (contacts d = None \<longrightarrow> contacts d' = None)
      \<and> (\<forall>t. contacts d = Some t \<longrightarrow> (\<exists>t'. contacts d' = Some t' \<and> prefix (rows t) (rows t')))"
    by (auto simp: submit_contact_def get_db_def insert_contact_def insert_row_def
          commit_def close_connection_def Let_def split: sum.splits option.splits)
  show "case chat_send body now1 now2 d of (r, d') \<Rightarrow>
      contacts d' = contacts d
      \<and> (chats d = None \<longrightarrow> chats d' = None)
      \<and> (\<forall>t. chats d = Some t \<longrightarrow> (\<exists>t'. chats d' = Some t' \<and> prefix (rows t) (rows t')))"
    by (auto simp: chat_send_def get_db_def insert_chat_def insert_row_def
          commit_def close_connection_def Let_def split: sum.splits option.splits)
qed

theorem views_only_append_witness:
  "chats (snd (submit_contact
       (Some (JObj [(''name'', JStr ''Ada''), (''email'', JStr ''ada@example.org'')])) ''t2''
       \<lparr>contacts = Some \<lparr>rows = [\<lparr>contact_id = 1, contact_name = ''Bob'',
            contact_email = ''bob@example.org'', contact_message = [],
            contact_created_at = ''t1''\<rparr>], last_rowid = 1\<rparr>,
        chats = Some empty_table\<rparr>)) = Some empty_table
   \<and> (\<exists>t'. contacts (snd (submit_contact
       (Some (JObj [(''name'', JStr ''Ada''), (''email'', JStr ''ada@example.org'')])) ''t2''
       \<lparr>contacts = Some \<lparr>rows = [\<lparr>contact_id = 1, contact_name = ''Bob'',
            contact_email = ''bob@example.org'', contact_message = [],
            contact_created_at = ''t1''\<rparr>], last_rowid = 1\<rparr>,
        chats = Some empty_table\<rparr>)) = Some t'
      \<and> prefix [\<lparr>contact_id = 1, contact_name = ''Bob'',
            contact_email = ''bob@example.org'', contact_message = [],
            contact_created_at = ''t1''\<rparr>] (rows t'))"
proof -
  let ?row = "\<lparr>contact_id = 1, contact_name = ''Bob'',
            contact_email = ''bob@example.org'', contact_message = [],
            contact_created_at = ''t1''\<rparr>"
  let ?d = "\<lparr>contacts = Some \<lparr>rows = [?row], last_rowid = 1\<rparr>, chats = Some empty_table\<rparr>"
  let ?body = "Some (JObj [(''name'', JStr ''Ada''), (''email'', JStr ''ada@example.org'')])"
  from views_only_append [where body = ?body and now = "''t2''" and d = ?d
      and ?now1.0 = "''t2''" and ?now2.0 = "''t3''"]
  show ?thesis
    by (simp add: case_prod_unfold)
qed

section \<open>The landing page and its alias\<close>

text \<open>
  Claim C9, as the interface table states it: GET \<^verbatim>\<open>/home\<close> returns the rendered landing
  page, the same response as GET \<^verbatim>\<open>/\<close>. The two responses differ.
\<close>

theorem home_alias_is_not_the_page:
  "handle_get ''/home'' \<noteq> handle_get ''/''"
  by (simp add: handle_get_def home_alias_def home_def redirect_def render_template_def)

text \<open>
  Claim C9, amended. GET \<^verbatim>\<open>/home\<close> answers with a redirect (status 302) to \<^verbatim>\<open>/\<close>, the
  URL of the view \<^verbatim>\<open>home\<close>; it is GET \<^verbatim>\<open>/\<close> that returns the rendered landing page
  \<^verbatim>\<open>index.html\<close>.
\<close>

theorem home_alias_redirects:
  "handle_get ''/home'' = Some \<lparr>status = 302, content = Location ''/''\<rparr>
   \<and> handle_get ''/'' = Some \<lparr>status = 200, content = Template ''index.html''\<rparr>"
  by (simp add: handle_get_def home_alias_def home_def redirect_def render_template_def
        url_for_home_def)

end
